theory Spec2Isabelle
  imports Main
begin

section \<open>Python values read from NDJSON\<close>

text \<open>
  \<^verbatim>\<open>json.loads\<close> yields \<^verbatim>\<open>None\<close>, booleans, unbounded integers, floats, strings, lists
  and dictionaries. Floats are kept abstract (type parameter \<open>'f\<close>): the program only asks
  for their truth value and their \<^verbatim>\<open>str()\<close>. A dictionary is an association list read
  with \<open>map_of\<close>. Strings are lists of \<open>char\<close>, each read as one code point below 256.
\<close>

datatype 'f json =
    JNull
  | JBool bool
  | JInt int
  | JFloat 'f
  | JStr string
  | JArr "'f json list"
  | JObj "(string \<times> 'f json) list"

type_synonym 'f pydict = "(string \<times> 'f json) list"

text \<open>
  The three ways a call of \<^verbatim>\<open>json.loads\<close> ends: with a value, with the
  \<^verbatim>\<open>json.JSONDecodeError\<close> that the reader catches, or with another exception (a plain
  \<^verbatim>\<open>ValueError\<close> for an integer of more than 4300 digits, a \<^verbatim>\<open>RecursionError\<close> for deep
  nesting), which the reader does not catch.
\<close>

datatype 'f loads = Loaded "'f json" | JSONDecodeError | Other_exception

text \<open>
  What the program calls but does not define: the Python runtime on floats and containers,
  \<^verbatim>\<open>json.loads\<close>, and the numpy operations on float32 arrays (type \<open>'a\<close>) and on a row's
  norm (type \<open>'n\<close>). Every function below takes them as one parameter, and every general
  theorem holds for any choice of them.
\<close>

record ('f, 'a, 'n) pylib =
  float_truthy :: "'f \<Rightarrow> bool"
  str_repr :: "'f json \<Rightarrow> string"
  json_loads :: "string \<Rightarrow> 'f loads"
  np_asarray :: "'f json list \<Rightarrow> 'a option"
  np_ndim :: "'a \<Rightarrow> nat"
  np_all_finite :: "'a \<Rightarrow> bool"
  np_row_norm :: "'a \<Rightarrow> 'n"
  np_is_zero :: "'n \<Rightarrow> bool"
  np_one :: "'n"
  np_row_div :: "'a \<Rightarrow> 'n \<Rightarrow> 'a"

subsection \<open>Truth values, \<^verbatim>\<open>or\<close>, \<^verbatim>\<open>dict.get\<close> and \<^verbatim>\<open>str()\<close>\<close>

fun truthy :: "('f, 'a, 'n) pylib \<Rightarrow> 'f json \<Rightarrow> bool" where
  "truthy lib JNull = False"
| "truthy lib (JBool b) = b"
| "truthy lib (JInt i) = (i \<noteq> 0)"
| "truthy lib (JFloat x) = float_truthy lib x"
| "truthy lib (JStr s) = (s \<noteq> [])"
| "truthy lib (JArr xs) = (xs \<noteq> [])"
| "truthy lib (JObj kvs) = (kvs \<noteq> [])"

definition py_or :: "('f, 'a, 'n) pylib \<Rightarrow> 'f json \<Rightarrow> 'f json \<Rightarrow> 'f json" where
  "py_or lib a b = (if truthy lib a then a else b)"

text \<open>\<^verbatim>\<open>d.get(k)\<close>: the value stored under \<open>k\<close>, and \<^verbatim>\<open>None\<close> when there is none.\<close>

definition py_get :: "'f pydict \<Rightarrow> string \<Rightarrow> 'f json" where
  "py_get d k = (case map_of d k of None \<Rightarrow> JNull | Some v \<Rightarrow> v)"

definition digit_char :: "nat \<Rightarrow> char" where
  "digit_char d = ''0123456789'' ! d"

fun digits10 :: "nat \<Rightarrow> string" where
  "digits10 n =
     (if n < 10 then [digit_char n] else digits10 (n div 10) @ [digit_char (n mod 10)])"

definition str_int :: "int \<Rightarrow> string" where
  "str_int i = (if i < 0 then CHR ''-'' # digits10 (nat (- i)) else digits10 (nat i))"

fun py_str :: "('f, 'a, 'n) pylib \<Rightarrow> 'f json \<Rightarrow> string" where
  "py_str lib JNull = ''None''"
| "py_str lib (JBool b) = (if b then ''True'' else ''False'')"
| "py_str lib (JInt i) = str_int i"
| "py_str lib (JStr s) = s"
| "py_str lib v = str_repr lib v"

subsection \<open>\<^verbatim>\<open>str.strip\<close>, \<^verbatim>\<open>str.lower\<close>, \<^verbatim>\<open>str.startswith\<close>\<close>

text \<open>Python's white space among the code points below 256.\<close>

definition isspace :: "char \<Rightarrow> bool" where
  "isspace c =
     (let n = (of_char c :: nat)
      in (9 \<le> n \<and> n \<le> 13) \<or> (28 \<le> n \<and> n \<le> 32) \<or> n = 133 \<or> n = 160)"

definition strip :: "string \<Rightarrow> string" where
  "strip s = rev (dropWhile isspace (rev (dropWhile isspace s)))"

definition lower_char :: "char \<Rightarrow> char" where
  "lower_char c =
     (let n = (of_char c :: nat)
      in if (65 \<le> n \<and> n \<le> 90) \<or> (192 \<le> n \<and> n \<le> 222 \<and> n \<noteq> 215)
         then char_of (n + 32) else c)"

definition lower :: "string \<Rightarrow> string" where
  "lower s = map lower_char s"

definition startswith :: "string \<Rightarrow> string \<Rightarrow> bool" where
  "startswith s p = (take (length p) s = p)"

section \<open>The key resolver\<close>

text \<open>The expression \<^verbatim>\<open>str(m.get(k) or "").strip()\<close>, which the source writes out each time.\<close>

definition str_field :: "('f, 'a, 'n) pylib \<Rightarrow> 'f pydict \<Rightarrow> string \<Rightarrow> string" where
  "str_field lib m k = strip (py_str lib (py_or lib (py_get m k) (JStr [])))"

definition stable_key :: "('f, 'a, 'n) pylib \<Rightarrow> 'f pydict \<Rightarrow> string" where
  "stable_key lib m =
     (let imdb_id = str_field lib m ''imdbId'' in
      if imdb_id \<noteq> [] then imdb_id
      else let movie_id = str_field lib m ''id'' in
      if movie_id \<noteq> [] then movie_id
      else let key = str_field lib m ''key'' in
      if key \<noteq> [] then key
      else let title = lower (str_field lib m ''title'');
               year = str_field lib m ''year'' in
      if title \<noteq> [] \<and> year \<noteq> [] then title @ ''|'' @ year
      else if title \<noteq> [] then ''title:'' @ title
      else [])"

text \<open>
  The key of a vector record, line 106 of \<^verbatim>\<open>build_faiss_index\<close>:
  \<^verbatim>\<open>str(r.get("key") or "").strip() or _stable_key(r)\<close>.
\<close>

definition vector_key :: "('f, 'a, 'n) pylib \<Rightarrow> 'f pydict \<Rightarrow> string" where
  "vector_key lib r =
     (let k = str_field lib r ''key'' in if k \<noteq> [] then k else stable_key lib r)"

section \<open>The record reader\<close>

text \<open>
  A file system maps a path to what is there, and to \<open>None\<close> when \<^verbatim>\<open>path.exists()\<close> is
  false. What is there either cannot be opened (\<^verbatim>\<open>path.open\<close> raises \<^verbatim>\<open>OSError\<close>: a
  directory, no permission), or is read to its end as a list of lines, or gives some lines
  and then makes the iteration raise (\<^verbatim>\<open>UnicodeDecodeError\<close>, \<^verbatim>\<open>OSError\<close>).
\<close>

datatype ndjson_file = Lines "string list" | Broken "string list" | Locked

type_synonym filesystem = "string \<Rightarrow> ndjson_file option"

text \<open>
  The exceptions that leave \<^verbatim>\<open>_iter_ndjson\<close>: from \<^verbatim>\<open>path.open\<close>, from reading the file,
  and from \<^verbatim>\<open>json.loads\<close> on the line of the given 1-based number. Each carries the path.
\<close>

datatype reader_error =
    Open_raises string
  | Read_raises string
  | Loads_raises string nat

text \<open>\<^verbatim>\<open>d[k] = v\<close>: the value under an existing key is replaced, a new key goes last.\<close>

fun py_set :: "'f pydict \<Rightarrow> string \<Rightarrow> 'f json \<Rightarrow> 'f pydict" where
  "py_set [] k v = [(k, v)]"
| "py_set (p # ps) k v = (if fst p = k then (k, v) # ps else p # py_set ps k v)"

text \<open>
  The loop of \<^verbatim>\<open>_iter_ndjson\<close>, lines 27 to 40: \<open>i\<close> is \<^verbatim>\<open>enumerate\<close>'s index of the first
  line left. Only \<^verbatim>\<open>json.JSONDecodeError\<close> is caught; another exception of \<^verbatim>\<open>json.loads\<close>
  ends the loop and the function.
\<close>

fun read_lines ::
  "('f, 'a, 'n) pylib \<Rightarrow> string \<Rightarrow> nat \<Rightarrow> string list \<Rightarrow> 'f pydict list
     \<Rightarrow> reader_error + 'f pydict list" where
  "read_lines lib path i [] out = Inr out"
| "read_lines lib path i (line # rest) out =
     (let s = strip line in
      if s = [] then read_lines lib path (Suc i) rest out
      else if startswith s ''#'' \<or> startswith s ''//''
      then read_lines lib path (Suc i) rest out
      else case json_loads lib s of
             JSONDecodeError \<Rightarrow> read_lines lib path (Suc i) rest out
           | Other_exception \<Rightarrow> Inl (Loads_raises path (i + 1))
           | Loaded (JObj obj) \<Rightarrow>
               read_lines lib path (Suc i) rest
                 (out @ [py_set obj ''__line__'' (JInt (int i + 1))])
           | Loaded other \<Rightarrow> read_lines lib path (Suc i) rest out)"

text \<open>
  \<^verbatim>\<open>_iter_ndjson\<close>: the records, or the exception raised. A file that breaks while it is
  read gives its lines to the loop first; when the loop gets through them, the read raises.
\<close>

definition iter_ndjson ::
  "('f, 'a, 'n) pylib \<Rightarrow> filesystem \<Rightarrow> string \<Rightarrow> reader_error + 'f pydict list" where
  "iter_ndjson lib fs path =
     (case fs path of
        None \<Rightarrow> Inr []
      | Some Locked \<Rightarrow> Inl (Open_raises path)
      | Some (Lines lines) \<Rightarrow> read_lines lib path 0 lines []
      | Some (Broken lines) \<Rightarrow>
          (case read_lines lib path 0 lines [] of
             Inl e \<Rightarrow> Inl e
           | Inr out \<Rightarrow> Inl (Read_raises path)))"








section \<open>The vector coercer\<close>

text \<open>
  \<open>np_asarray\<close> is \<^verbatim>\<open>np.asarray(v, dtype=np.float32)\<close>, with \<open>None\<close> where it raises;
  \<open>np_ndim\<close> is \<^verbatim>\<open>arr.ndim\<close> and \<open>np_all_finite\<close> is \<^verbatim>\<open>np.all(np.isfinite(arr))\<close>.
\<close>

fun coerce_vector :: "('f, 'a, 'n) pylib \<Rightarrow> 'f json \<Rightarrow> nat option \<Rightarrow> 'a option" where
  "coerce_vector lib (JArr v) expected_dim =
     (if v = [] then None
      else if (case expected_dim of None \<Rightarrow> False | Some d \<Rightarrow> length v \<noteq> d) then None
      else case np_asarray lib v of
             None \<Rightarrow> None
           | Some arr \<Rightarrow>
               if np_ndim lib arr \<noteq> 1 then None
               else if \<not> np_all_finite lib arr then None
               else Some arr)"
| "coerce_vector lib other expected_dim = None"

section \<open>The join and build pipeline\<close>

text \<open>
  The join table, lines 81 to 86: a dictionary from key to movie record, written by plain
  assignment in file order.
\<close>

fun build_join ::
  "('f, 'a, 'n) pylib \<Rightarrow> 'f pydict list \<Rightarrow> (string \<rightharpoonup> 'f pydict) \<Rightarrow> (string \<rightharpoonup> 'f pydict)" where
  "build_join lib [] movie_by_key = movie_by_key"
| "build_join lib (m # rest) movie_by_key =
     (let key = stable_key lib m in
      if key = [] then build_join lib rest movie_by_key
      else build_join lib rest (movie_by_key(key \<mapsto> m)))"

text \<open>The dimension, lines 92 to 97: the length of the first non-empty list under \<^verbatim>\<open>vector\<close>.\<close>

fun infer_dim :: "'f pydict list \<Rightarrow> nat option" where
  "infer_dim [] = None"
| "infer_dim (r # rest) =
     (case py_get r ''vector'' of
        JArr vec \<Rightarrow> if vec \<noteq> [] then Some (length vec) else infer_dim rest
      | other \<Rightarrow> infer_dim rest)"

text \<open>\<^verbatim>\<open>movie_by_key.get(key) or {}\<close>.\<close>

definition lookup_movie :: "(string \<rightharpoonup> 'f pydict) \<Rightarrow> string \<Rightarrow> 'f pydict" where
  "lookup_movie movie_by_key key =
     (case movie_by_key key of None \<Rightarrow> [] | Some m \<Rightarrow> if m \<noteq> [] then m else [])"

text \<open>
  The dictionary appended to \<^verbatim>\<open>metas\<close>, lines 117 to 132; \<open>m\<close> is always a dictionary, so
  each \<^verbatim>\<open>(m.get(f) if isinstance(m, dict) else None) or r.get(f)\<close> is \<^verbatim>\<open>m.get(f) or r.get(f)\<close>.
\<close>

definition compose_meta ::
  "('f, 'a, 'n) pylib \<Rightarrow> 'f pydict \<Rightarrow> string \<Rightarrow> 'f pydict \<Rightarrow> 'f pydict" where
  "compose_meta lib m key r =
     [(''imdbId'', py_or lib (py_get m ''imdbId'') (py_get r ''imdbId'')),
      (''id'', py_or lib (py_get m ''id'') (py_get r ''id'')),
      (''key'', JStr key),
      (''title'', py_or lib (py_get m ''title'') (py_get r ''title'')),
      (''year'', py_or lib (py_get m ''year'') (py_get r ''year'')),
      (''genre'', py_or lib (py_get m ''genre'') (py_get r ''genre'')),
      (''productionCountry'',
         py_or lib (py_get m ''productionCountry'') (py_get r ''productionCountry'')),
      (''moodTags'',
         py_or lib (py_or lib (py_get m ''moodTags'') (py_get r ''moodTags'')) (JArr []))]"

text \<open>
  The join loop, lines 105 to 133, on the state \<^verbatim>\<open>(vectors, metas, skipped)\<close>.
\<close>

fun join_loop ::
  "('f, 'a, 'n) pylib \<Rightarrow> (string \<rightharpoonup> 'f pydict) \<Rightarrow> nat \<Rightarrow> 'f pydict list
     \<Rightarrow> 'a list \<times> 'f pydict list \<times> nat \<Rightarrow> 'a list \<times> 'f pydict list \<times> nat" where
  "join_loop lib movie_by_key inferred_dim [] st = st"
| "join_loop lib movie_by_key inferred_dim (r # rest) (vectors, metas, skipped) =
     (let key = vector_key lib r in
      if key = [] then join_loop lib movie_by_key inferred_dim rest (vectors, metas, skipped + 1)
      else case coerce_vector lib (py_get r ''vector'') (Some inferred_dim) of
             None \<Rightarrow> join_loop lib movie_by_key inferred_dim rest (vectors, metas, skipped + 1)
           | Some vec \<Rightarrow>
               join_loop lib movie_by_key inferred_dim rest
                 (vectors @ [vec],
                  metas @ [compose_meta lib (lookup_movie movie_by_key key) key r],
                  skipped))"

text \<open>
  Normalisation, lines 138 to 141. numpy works row by row here: \<open>np_row_norm\<close> is the L2
  norm of one row, a zero norm is replaced by one, and \<open>np_row_div\<close> divides the row by it.
\<close>

definition normalize_row :: "('f, 'a, 'n) pylib \<Rightarrow> 'a \<Rightarrow> 'a" where
  "normalize_row lib row =
     (let norm = np_row_norm lib row
      in np_row_div lib row (if np_is_zero lib norm then np_one lib else norm))"

definition normalize :: "('f, 'a, 'n) pylib \<Rightarrow> 'a list \<Rightarrow> 'a list" where
  "normalize lib vectors = map (normalize_row lib) vectors"

record 'f sidecar =
  meta_dim :: nat
  meta_count :: nat
  meta_skipped :: nat
  meta_items :: "'f pydict list"

text \<open>
  What a run does to the outside, in order: \<^verbatim>\<open>faiss\<close> imported, directories made, the
  index of the given dimension and rows written, the sidecar written, the three lines
  printed.
\<close>

datatype ('f, 'a) effect =
    Import_faiss
  | Mkdir_parent string
  | Write_index string nat "'a list"
  | Write_text string "'f sidecar"
  | Print_indexed nat nat nat
  | Print_wrote string

text \<open>
  The exceptions that leave \<^verbatim>\<open>build_faiss_index\<close>: those of the reader, its own three
  \<^verbatim>\<open>ValueError\<close>s, by message, and the exception of a step on the outside that fails
  (\<^verbatim>\<open>ImportError\<close>, \<^verbatim>\<open>OSError\<close>). The specification names only the three \<^verbatim>\<open>ValueError\<close>s.
\<close>

datatype ('f, 'a) error =
    Reader reader_error
  | No_vectors_found string
  | No_valid_vectors_found string
  | No_valid_vectors_to_index
  | Effect_raises "('f, 'a) effect"

datatype error_class = MissingInputError | InvalidInputError

fun classify :: "('f, 'a) error \<Rightarrow> error_class option" where
  "classify (No_vectors_found path) = Some MissingInputError"
| "classify (No_valid_vectors_found path) = Some InvalidInputError"
| "classify No_valid_vectors_to_index = Some InvalidInputError"
| "classify other = None"

text \<open>
  The outside decides whether a step succeeds, knowing the steps carried out so far. The steps
  are carried out in order up to the first that raises; that one is not counted among
  the steps carried out, whatever it has left behind.
\<close>

type_synonym ('f, 'a) outside = "('f, 'a) effect list \<Rightarrow> ('f, 'a) effect \<Rightarrow> bool"

fun perform ::
  "('f, 'a) outside \<Rightarrow> ('f, 'a) effect list \<Rightarrow> ('f, 'a) effect list
     \<Rightarrow> (('f, 'a) error + unit) \<times> ('f, 'a) effect list" where
  "perform world sofar [] = (Inr (), sofar)"
| "perform world sofar (e # rest) =
     (if world sofar e then perform world (sofar @ [e]) rest
      else (Inl (Effect_raises e), sofar))"

text \<open>
  \<^verbatim>\<open>build_faiss_index\<close>: the outcome (an exception, or a normal return) and the steps
  carried out before it. The movies dataset is read first, then the vectors dataset;
  everything up to line 141 touches nothing outside.
\<close>

definition build_faiss_index ::
  "('f, 'a, 'n) pylib \<Rightarrow> ('f, 'a) outside \<Rightarrow> filesystem
     \<Rightarrow> string \<Rightarrow> string \<Rightarrow> string \<Rightarrow> string
     \<Rightarrow> (('f, 'a) error + unit) \<times> ('f, 'a) effect list" where
  "build_faiss_index lib world fs movies_ndjson vectors_ndjson out_index out_meta =
     (case iter_ndjson lib fs movies_ndjson of
        Inl e \<Rightarrow> (Inl (Reader e), [])
      | Inr movies_rows \<Rightarrow>
          (let movie_by_key = build_join lib movies_rows Map.empty
           in (case iter_ndjson lib fs vectors_ndjson of
                 Inl e \<Rightarrow> (Inl (Reader e), [])
               | Inr vector_rows \<Rightarrow>
                   (if vector_rows = [] then (Inl (No_vectors_found vectors_ndjson), [])
                    else (case infer_dim vector_rows of
                            None \<Rightarrow> (Inl (No_valid_vectors_found vectors_ndjson), [])
                          | Some inferred_dim \<Rightarrow>
                              (case join_loop lib movie_by_key inferred_dim vector_rows
                                      ([], [], 0) of
                                 (vectors, metas, skipped) \<Rightarrow>
                                   (if vectors = [] then (Inl No_valid_vectors_to_index, [])
                                    else (let mat = normalize lib vectors;
                                              meta_obj = \<lparr> meta_dim = inferred_dim,
                                                           meta_count = length metas,
                                                           meta_skipped = skipped,
                                                           meta_items = metas \<rparr>
                                          in perform world []
                                               [Import_faiss,
                                                Mkdir_parent out_index,
                                                Write_index out_index inferred_dim mat,
                                                Mkdir_parent out_meta,
                                                Write_text out_meta meta_obj,
                                                Print_indexed (length metas) skipped
                                                  inferred_dim,
                                                Print_wrote out_index,
                                                Print_wrote out_meta]))))))))"

text \<open>The records a path gives when the reader returns; none when it raises.\<close>

definition records_of :: "('f, 'a, 'n) pylib \<Rightarrow> filesystem \<Rightarrow> string \<Rightarrow> 'f pydict list" where
  "records_of lib fs path = (case iter_ndjson lib fs path of Inl e \<Rightarrow> [] | Inr rows \<Rightarrow> rows)"

text \<open>
  The same run told from the records that are kept: a vector record is kept when its key is
  not empty and its vector passes the coercer at the inferred dimension; it gives one
  item and one row.
\<close>

definition keeps :: "('f, 'a, 'n) pylib \<Rightarrow> nat \<Rightarrow> 'f pydict \<Rightarrow> bool" where
  "keeps lib d r =
     (vector_key lib r \<noteq> [] \<and> coerce_vector lib (py_get r ''vector'') (Some d) \<noteq> None)"

definition retained :: "('f, 'a, 'n) pylib \<Rightarrow> nat \<Rightarrow> 'f pydict list \<Rightarrow> 'f pydict list" where
  "retained lib d rows = filter (keeps lib d) rows"

definition item_of ::
  "('f, 'a, 'n) pylib \<Rightarrow> (string \<rightharpoonup> 'f pydict) \<Rightarrow> 'f pydict \<Rightarrow> 'f pydict" where
  "item_of lib movie_by_key r =
     compose_meta lib (lookup_movie movie_by_key (vector_key lib r)) (vector_key lib r) r"

definition vec_of :: "('f, 'a, 'n) pylib \<Rightarrow> nat \<Rightarrow> 'f pydict \<Rightarrow> 'a" where
  "vec_of lib d r = the (coerce_vector lib (py_get r ''vector'') (Some d))"





text \<open>What a list of effects wrote: the sidecar, and the index's dimension and rows.\<close>

fun written_meta :: "('f, 'a) effect list \<Rightarrow> 'f sidecar option" where
  "written_meta [] = None"
| "written_meta (Write_text path meta # rest) = Some meta"
| "written_meta (e # rest) = written_meta rest"

fun written_index :: "('f, 'a) effect list \<Rightarrow> (nat \<times> 'a list) option" where
  "written_index [] = None"
| "written_index (Write_index path d mat # rest) = Some (d, mat)"
| "written_index (e # rest) = written_index rest"

text \<open>
  The steps a run has before it once the checks have passed, told from the kept records.
\<close>

definition planned ::
  "('f, 'a, 'n) pylib \<Rightarrow> (string \<rightharpoonup> 'f pydict) \<Rightarrow> nat \<Rightarrow> 'f pydict list
     \<Rightarrow> string \<Rightarrow> string \<Rightarrow> ('f, 'a) effect list" where
  "planned lib movie_by_key d rows out_index out_meta =
     [Import_faiss,
      Mkdir_parent out_index,
      Write_index out_index d
        (map (\<lambda>r. normalize_row lib (vec_of lib d r)) (retained lib d rows)),
      Mkdir_parent out_meta,
      Write_text out_meta
        \<lparr> meta_dim = d,
          meta_count = length (retained lib d rows),
          meta_skipped = length rows - length (retained lib d rows),
          meta_items = map (item_of lib movie_by_key) (retained lib d rows) \<rparr>,
      Print_indexed (length (retained lib d rows))
        (length rows - length (retained lib d rows)) d,
      Print_wrote out_index,
      Print_wrote out_meta]"

text \<open>What a row is divided by: its norm, or one when the norm is zero.\<close>

definition divisor :: "('f, 'a, 'n) pylib \<Rightarrow> 'a \<Rightarrow> 'n" where
  "divisor lib row =
     (if np_is_zero lib (np_row_norm lib row) then np_one lib else np_row_norm lib row)"

section \<open>A stand-in library for concrete runs\<close>

text \<open>
  Closed examples need one concrete library. This one is exact on what the examples use
  (strings, integers, lists of integers) and symbolic on arithmetic: a float is an integer
  value, an array is the list of its integer entries, a norm and a quotient are kept as
  terms. It parses nothing: an example that reads a file says what its lines parse to.
\<close>

datatype demo_norm = NormOf "int list" | NormOne

datatype demo_arr = Vec "int list" | Quot "int list" demo_norm

fun demo_int :: "int json \<Rightarrow> int option" where
  "demo_int (JInt i) = Some i"
| "demo_int v = None"

definition demo_asarray :: "int json list \<Rightarrow> demo_arr option" where
  "demo_asarray xs =
     (if list_all (\<lambda>v. demo_int v \<noteq> None) xs then Some (Vec (map (\<lambda>v. the (demo_int v)) xs))
      else None)"

fun demo_entries :: "demo_arr \<Rightarrow> int list" where
  "demo_entries (Vec xs) = xs"
| "demo_entries (Quot xs n) = xs"

fun demo_is_zero :: "demo_norm \<Rightarrow> bool" where
  "demo_is_zero (NormOf xs) = list_all (\<lambda>x. x = 0) xs"
| "demo_is_zero NormOne = False"

definition demo_lib :: "(int, demo_arr, demo_norm) pylib" where
  "demo_lib =
     \<lparr> float_truthy = (\<lambda>x. x \<noteq> 0),
       str_repr = (\<lambda>v. []),
       json_loads = (\<lambda>s. JSONDecodeError),
       np_asarray = demo_asarray,
       np_ndim = (\<lambda>a. 1),
       np_all_finite = (\<lambda>a. True),
       np_row_norm = (\<lambda>a. NormOf (demo_entries a)),
       np_is_zero = demo_is_zero,
       np_one = NormOne,
       np_row_div = (\<lambda>a n. Quot (demo_entries a) n) \<rparr>"

text \<open>
  The files of the examples, and what their lines parse to. \<^verbatim>\<open>movies.ndjson\<close> and
  \<^verbatim>\<open>vectors.ndjson\<close> are the specification's scenario A; no file is at \<^verbatim>\<open>absent.ndjson\<close>.
\<close>

definition demo_parses :: "(string \<times> int json) list" where
  "demo_parses =
     [(''{\"imdbId\":\"tt1\",\"title\":\"X\",\"year\":2000}'',
         JObj [(''imdbId'', JStr ''tt1''), (''title'', JStr ''X''), (''year'', JInt 2000)]),
      (''{\"key\":\"tt1\",\"vector\":[1,0,0]}'',
         JObj [(''key'', JStr ''tt1''), (''vector'', JArr [JInt 1, JInt 0, JInt 0])]),
      (''{\"key\":\"tt1\",\"vector\":[0,1,0]}'',
         JObj [(''key'', JStr ''tt1''), (''vector'', JArr [JInt 0, JInt 1, JInt 0])]),
      (''{\"key\":\"a\",\"vector\":[1,2]}'',
         JObj [(''key'', JStr ''a''), (''vector'', JArr [JInt 1, JInt 2])]),
      (''{\"key\":\"b\",\"vector\":[1,2,3]}'',
         JObj [(''key'', JStr ''b''), (''vector'', JArr [JInt 1, JInt 2, JInt 3])]),
      (''{\"imdbId\":\"tt1\",\"title\":\"X\",\"genre\":\"\"}'',
         JObj [(''imdbId'', JStr ''tt1''), (''title'', JStr ''X''), (''genre'', JStr '''')]),
      (''{\"imdbId\":\"tt1\",\"title\":\"Y\"}'',
         JObj [(''imdbId'', JStr ''tt1''), (''title'', JStr ''Y'')]),
      (''{\"key\":\"tt1\",\"genre\":\"Drama\",\"vector\":[1,0,0]}'',
         JObj [(''key'', JStr ''tt1''), (''genre'', JStr ''Drama''),
               (''vector'', JArr [JInt 1, JInt 0, JInt 0])]),
      (''{\"key\":\"tt1\"}'', JObj [(''key'', JStr ''tt1'')]),
      (''[1,2]'', JArr [JInt 1, JInt 2])]"

definition demo_files :: "(string \<times> ndjson_file) list" where
  "demo_files =
     [(''movies.ndjson'', Lines [''{\"imdbId\":\"tt1\",\"title\":\"X\",\"year\":2000}'']),
      (''vectors.ndjson'', Lines [''{\"key\":\"tt1\",\"vector\":[1,0,0]}'']),
      (''two_movies.ndjson'',
         Lines [''{\"imdbId\":\"tt1\",\"title\":\"X\",\"year\":2000}'',
                ''{\"imdbId\":\"tt1\",\"title\":\"Y\"}'']),
      (''twice.ndjson'',
         Lines [''{\"key\":\"tt1\",\"vector\":[1,0,0]}'',
                ''{\"key\":\"tt1\",\"vector\":[0,1,0]}'']),
      (''mixed.ndjson'',
         Lines [''{\"key\":\"a\",\"vector\":[1,2]}'', ''{\"key\":\"b\",\"vector\":[1,2,3]}'']),
      (''blank_genre.ndjson'',
         Lines [''{\"imdbId\":\"tt1\",\"title\":\"X\",\"genre\":\"\"}'']),
      (''with_genre.ndjson'',
         Lines [''{\"key\":\"tt1\",\"genre\":\"Drama\",\"vector\":[1,0,0]}'']),
      (''no_vector.ndjson'', Lines [''{\"key\":\"tt1\"}'']),
      (''comments.ndjson'', Lines [''# nothing here'', '''']),
      (''cut_short.ndjson'', Broken [''{\"key\":\"tt1\",\"vector\":[1,0,0]}'']),
      (''folder.ndjson'', Locked)]"

definition demo_fs :: filesystem where
  "demo_fs = map_of demo_files"

text \<open>
  A line of more than 4300 digits is an integer that \<^verbatim>\<open>json.loads\<close> refuses with a plain
  \<^verbatim>\<open>ValueError\<close> (the limit on converting a string to \<^verbatim>\<open>int\<close>); a line of the table parses
  to what the table says; the examples have no other line that reaches \<^verbatim>\<open>json.loads\<close>
  but \<^verbatim>\<open>{bad\<close>, which is not JSON.
\<close>

definition demo_loads :: "string \<Rightarrow> int loads" where
  "demo_loads s =
     (if 4300 < length s \<and> list_all (\<lambda>c. c \<in> set ''0123456789'') s then Other_exception
      else case map_of demo_parses s of None \<Rightarrow> JSONDecodeError | Some v \<Rightarrow> Loaded v)"

definition demo_reader :: "(int, demo_arr, demo_norm) pylib" where
  "demo_reader = demo_lib \<lparr> json_loads := demo_loads \<rparr>"

text \<open>Two outsides: one where every step succeeds, one where writing the sidecar fails.\<close>

definition all_succeed :: "(int, demo_arr) outside" where
  "all_succeed sofar e = True"

definition sidecar_fails :: "(int, demo_arr) outside" where
  "sidecar_fails sofar e = (case e of Write_text path meta \<Rightarrow> False | other \<Rightarrow> True)"

definition demo_run ::
  "string \<Rightarrow> string
     \<Rightarrow> ((int, demo_arr) error + unit) \<times> (int, demo_arr) effect list" where
  "demo_run movies vectors =
     build_faiss_index demo_reader all_succeed demo_fs movies vectors
       ''faiss.index'' ''meta.json''"



section \<open>Keys of movie records and of vector records\<close>

lemma lower_empty: "(lower s = []) = (s = [])"
  by (simp add: lower_def)

lemma stable_key_chain:
  "stable_key lib r =
     (if str_field lib r ''imdbId'' \<noteq> [] then str_field lib r ''imdbId''
      else if str_field lib r ''id'' \<noteq> [] then str_field lib r ''id''
      else if str_field lib r ''key'' \<noteq> [] then str_field lib r ''key''
      else if str_field lib r ''title'' \<noteq> [] \<and> str_field lib r ''year'' \<noteq> []
      then lower (str_field lib r ''title'') @ ''|'' @ str_field lib r ''year''
      else if str_field lib r ''title'' \<noteq> []
      then ''title:'' @ lower (str_field lib r ''title'')
      else [])"
  by (simp add: stable_key_def Let_def lower_empty)

text \<open>
  C1 (as the code has it). A movie record's key is the first that is not empty of: its
  trimmed \<^verbatim>\<open>imdbId\<close>, its trimmed \<^verbatim>\<open>id\<close>, its trimmed \<^verbatim>\<open>key\<close>, its lower-cased title
  followed by \<^verbatim>\<open>|\<close> and the year when both are there, \<^verbatim>\<open>title:\<close> followed by the
  lower-cased title; and the empty string when there is none. A vector record's key is
  its own trimmed \<^verbatim>\<open>key\<close> field when that is not empty, and the same chain otherwise. So
  the two keys of one record are equal exactly when its \<^verbatim>\<open>key\<close> field is blank, or both
  its \<^verbatim>\<open>imdbId\<close> and its \<^verbatim>\<open>id\<close> are blank, or its \<^verbatim>\<open>key\<close> field equals the \<^verbatim>\<open>imdbId\<close> (the
  \<^verbatim>\<open>id\<close> if that is blank); when they differ, the vector key is the \<^verbatim>\<open>key\<close> field and the
  movie key is the \<^verbatim>\<open>imdbId\<close> or the \<^verbatim>\<open>id\<close>.
\<close>

theorem vector_key_vs_stable_key:
  "stable_key lib r =
     (if str_field lib r ''imdbId'' \<noteq> [] then str_field lib r ''imdbId''
      else if str_field lib r ''id'' \<noteq> [] then str_field lib r ''id''
      else if str_field lib r ''key'' \<noteq> [] then str_field lib r ''key''
      else if str_field lib r ''title'' \<noteq> [] \<and> str_field lib r ''year'' \<noteq> []
      then lower (str_field lib r ''title'') @ ''|'' @ str_field lib r ''year''
      else if str_field lib r ''title'' \<noteq> []
      then ''title:'' @ lower (str_field lib r ''title'')
      else [])
   \<and> vector_key lib r =
       (if str_field lib r ''key'' \<noteq> [] then str_field lib r ''key'' else stable_key lib r)
   \<and> (vector_key lib r = stable_key lib r) =
       (str_field lib r ''key'' = []
        \<or> (str_field lib r ''imdbId'' = [] \<and> str_field lib r ''id'' = [])
        \<or> str_field lib r ''key'' =
            (if str_field lib r ''imdbId'' \<noteq> [] then str_field lib r ''imdbId''
             else str_field lib r ''id''))
   \<and> (str_field lib r ''key'' = [] \<longrightarrow> vector_key lib r = stable_key lib r)
   \<and> (str_field lib r ''imdbId'' = [] \<and> str_field lib r ''id'' = []
        \<longrightarrow> vector_key lib r = stable_key lib r)
   \<and> (vector_key lib r \<noteq> stable_key lib r
        \<longrightarrow> vector_key lib r = str_field lib r ''key''
          \<and> stable_key lib r =
              (if str_field lib r ''imdbId'' \<noteq> [] then str_field lib r ''imdbId''
               else str_field lib r ''id''))"
proof (intro conjI)
  show "stable_key lib r =
     (if str_field lib r ''imdbId'' \<noteq> [] then str_field lib r ''imdbId''
      else if str_field lib r ''id'' \<noteq> [] then str_field lib r ''id''
      else if str_field lib r ''key'' \<noteq> [] then str_field lib r ''key''
      else if str_field lib r ''title'' \<noteq> [] \<and> str_field lib r ''year'' \<noteq> []
      then lower (str_field lib r ''title'') @ ''|'' @ str_field lib r ''year''
      else if str_field lib r ''title'' \<noteq> []
      then ''title:'' @ lower (str_field lib r ''title'')
      else [])"
    by (rule stable_key_chain)
  show "vector_key lib r =
       (if str_field lib r ''key'' \<noteq> [] then str_field lib r ''key'' else stable_key lib r)"
    by (simp add: vector_key_def)
  show "(vector_key lib r = stable_key lib r) =
       (str_field lib r ''key'' = []
        \<or> (str_field lib r ''imdbId'' = [] \<and> str_field lib r ''id'' = [])
        \<or> str_field lib r ''key'' =
            (if str_field lib r ''imdbId'' \<noteq> [] then str_field lib r ''imdbId''
             else str_field lib r ''id''))"
    by (auto simp: vector_key_def stable_key_chain)
  show "str_field lib r ''key'' = [] \<longrightarrow> vector_key lib r = stable_key lib r"
    by (simp add: vector_key_def)
  show "str_field lib r ''imdbId'' = [] \<and> str_field lib r ''id'' = []
        \<longrightarrow> vector_key lib r = stable_key lib r"
    by (simp add: vector_key_def stable_key_chain)
  show "vector_key lib r \<noteq> stable_key lib r
        \<longrightarrow> vector_key lib r = str_field lib r ''key''
          \<and> stable_key lib r =
              (if str_field lib r ''imdbId'' \<noteq> [] then str_field lib r ''imdbId''
               else str_field lib r ''id'')"
    by (simp add: vector_key_def stable_key_chain)
qed

theorem vector_key_vs_stable_key_witness:
  "vector_key demo_lib [(''title'', JStr '' Heat ''), (''year'', JInt 1995)] = ''heat|1995''
   \<and> stable_key demo_lib [(''title'', JStr '' Heat ''), (''year'', JInt 1995)] = ''heat|1995''
   \<and> vector_key demo_lib [(''id'', JInt 7), (''key'', JStr ''k7'')] = ''k7''
   \<and> stable_key demo_lib [(''id'', JInt 7), (''key'', JStr ''k7'')] = ''7''"
proof -
  let ?heat = "[(''title'', JStr '' Heat ''), (''year'', JInt 1995)] :: int pydict"
  let ?seven = "[(''id'', JInt 7), (''key'', JStr ''k7'')] :: int pydict"
  have a: "str_field demo_lib ?heat ''key'' = []"
    by code_simp
  have b: "stable_key demo_lib ?heat = ''heat|1995''"
    by code_simp
  have c: "vector_key demo_lib ?seven \<noteq> stable_key demo_lib ?seven"
    by code_simp
  have d: "str_field demo_lib ?seven ''key'' = ''k7''"
    by code_simp
  have e: "str_field demo_lib ?seven ''imdbId'' = []"
    by code_simp
  have f: "str_field demo_lib ?seven ''id'' = ''7''"
    by code_simp
  from vector_key_vs_stable_key [of demo_lib ?heat] a
  have "vector_key demo_lib ?heat = stable_key demo_lib ?heat"
    by blast
  with b have heat: "vector_key demo_lib ?heat = ''heat|1995''"
    by simp
  from vector_key_vs_stable_key [of demo_lib ?seven] c
  have "vector_key demo_lib ?seven = str_field demo_lib ?seven ''key''"
    and "stable_key demo_lib ?seven =
           (if str_field demo_lib ?seven ''imdbId'' \<noteq> [] then str_field demo_lib ?seven ''imdbId''
            else str_field demo_lib ?seven ''id'')"
    by blast+
  with d e f have seven: "vector_key demo_lib ?seven = ''k7''"
    and seven': "stable_key demo_lib ?seven = ''7''"
    by simp_all
  from heat b seven seven' show ?thesis
    by simp
qed

text \<open>
  C1 (as stated) fails: the record with \<^verbatim>\<open>imdbId\<close> "tt1" and \<^verbatim>\<open>key\<close> "k1" gets the key
  "tt1" as a movie record and the key "k1" as a vector record.
\<close>

theorem same_key_both_record_types_counterexample:
  "stable_key demo_lib [(''imdbId'', JStr ''tt1''), (''key'', JStr ''k1'')] = ''tt1''
   \<and> vector_key demo_lib [(''imdbId'', JStr ''tt1''), (''key'', JStr ''k1'')] = ''k1''
   \<and> stable_key demo_lib [(''imdbId'', JStr ''tt1''), (''key'', JStr ''k1'')]
       \<noteq> vector_key demo_lib [(''imdbId'', JStr ''tt1''), (''key'', JStr ''k1'')]"
  by code_simp

section \<open>What the record reader returns, and when it raises\<close>











section \<open>The vector coercer rejects exactly the listed inputs\<close>

text \<open>
  C8. The coercer returns the rejection signal exactly when the value is not a list or is
  empty, or a dimension is expected and the length differs, or the conversion raises, or
  the array is not one-dimensional, or some entry is not finite. In every other case it
  returns the array that the conversion produced, unchanged.
\<close>

theorem coerce_vector_rejects_iff:
  "(coerce_vector lib v expected_dim = None) =
     ((case v of JArr xs \<Rightarrow> xs = [] | other \<Rightarrow> True)
      \<or> (case (v, expected_dim) of (JArr xs, Some d) \<Rightarrow> length xs \<noteq> d | other \<Rightarrow> False)
      \<or> (case v of JArr xs \<Rightarrow> np_asarray lib xs = None | other \<Rightarrow> False)
      \<or> (case v of JArr xs \<Rightarrow>
            (case np_asarray lib xs of Some arr \<Rightarrow> np_ndim lib arr \<noteq> 1 | None \<Rightarrow> False)
          | other \<Rightarrow> False)
      \<or> (case v of JArr xs \<Rightarrow>
            (case np_asarray lib xs of Some arr \<Rightarrow> \<not> np_all_finite lib arr | None \<Rightarrow> False)
          | other \<Rightarrow> False))
   \<and> (coerce_vector lib v expected_dim \<noteq> None \<longrightarrow>
        (case v of JArr xs \<Rightarrow> coerce_vector lib v expected_dim = np_asarray lib xs
         | other \<Rightarrow> False))"
  by (cases v; cases expected_dim) (auto split: option.splits)

theorem coerce_vector_rejects_iff_witness:
  "coerce_vector demo_lib (JArr [JInt 1, JInt 0, JInt 0]) (Some 3) = Some (Vec [1, 0, 0])
   \<and> np_asarray demo_lib [JInt 1, JInt 0, JInt 0] = Some (Vec [1, 0, 0])
   \<and> coerce_vector demo_lib (JArr [JInt 1, JInt 2]) (Some 3) = None
   \<and> coerce_vector demo_lib (JArr [JInt 1, JStr ''x'']) None = None
   \<and> coerce_vector demo_lib (JArr []) None = None
   \<and> coerce_vector demo_lib (JStr ''12'') None = None"
proof -
  have a: "coerce_vector demo_lib (JArr [JInt 1, JInt 0, JInt 0]) (Some 3) \<noteq> None"
    by code_simp
  have b: "np_asarray demo_lib [JInt 1, JInt 0, JInt 0] = Some (Vec [1, 0, 0])"
    by code_simp
  have c: "length [JInt 1, JInt 2 :: int json] \<noteq> 3"
    by simp
  have d: "np_asarray demo_lib [JInt 1, JStr ''x''] = None"
    by code_simp
  from coerce_vector_rejects_iff [of demo_lib "JArr [JInt 1, JInt 0, JInt 0]" "Some 3"] a b
       coerce_vector_rejects_iff [of demo_lib "JArr [JInt 1, JInt 2]" "Some 3"] c
       coerce_vector_rejects_iff [of demo_lib "JArr [JInt 1, JStr ''x'']" None] d
       coerce_vector_rejects_iff [of demo_lib "JArr []" None]
       coerce_vector_rejects_iff [of demo_lib "JStr ''12''" None]
  show ?thesis by simp
qed

section \<open>The run, told from the kept records\<close>

lemma join_loop_retained:
  "join_loop lib t d rows (vs, ms, sk)
     = (vs @ map (vec_of lib d) (retained lib d rows),
        ms @ map (item_of lib t) (retained lib d rows),
        sk + (length rows - length (retained lib d rows)))"
proof (induction rows arbitrary: vs ms sk)
  case Nil
  show ?case by (simp add: retained_def)
next
  case (Cons r rest)
  have le: "length (retained lib d rest) \<le> length rest"
    by (simp add: retained_def)
  show ?case
  proof (cases "keeps lib d r")
    case True
    then obtain vec where vec: "coerce_vector lib (py_get r ''vector'') (Some d) = Some vec"
      and key: "vector_key lib r \<noteq> []"
      by (auto simp: keeps_def)
    from True vec key show ?thesis
      by (simp add: Cons.IH retained_def vec_of_def item_of_def Let_def)
  next
    case False
    with le show ?thesis
      by (auto simp: Cons.IH retained_def keeps_def Let_def Suc_diff_le split: option.splits)
  qed
qed

lemma retained_length_le: "length (retained lib d rows) \<le> length rows"
  by (simp add: retained_def)

lemma perform_steps:
  "\<exists>k \<le> length es.
      snd (perform world sofar es) = sofar @ take k es
    \<and> (fst (perform world sofar es) = Inr () \<longrightarrow> k = length es)
    \<and> (\<forall>e. fst (perform world sofar es) = Inl e
          \<longrightarrow> k < length es \<and> e = Effect_raises (es ! k)
            \<and> \<not> world (sofar @ take k es) (es ! k))"
proof (induction es arbitrary: sofar)
  case Nil
  show ?case by simp
next
  case (Cons e rest)
  show ?case
  proof (cases "world sofar e")
    case True
    from Cons.IH [of "sofar @ [e]"] obtain k where k: "k \<le> length rest"
      and s: "snd (perform world (sofar @ [e]) rest) = (sofar @ [e]) @ take k rest"
      and ok: "fst (perform world (sofar @ [e]) rest) = Inr () \<longrightarrow> k = length rest"
      and bad: "\<forall>x. fst (perform world (sofar @ [e]) rest) = Inl x
                  \<longrightarrow> k < length rest \<and> x = Effect_raises (rest ! k)
                    \<and> \<not> world ((sofar @ [e]) @ take k rest) (rest ! k)"
      by blast
    show ?thesis
      using True k s ok bad by (intro exI [of _ "Suc k"]) simp
  next
    case False
    then show ?thesis
      by (intro exI [of _ 0]) simp
  qed
qed

lemma perform_all_succeed:
  assumes "\<And>s e. world s e"
  shows "perform world sofar es = (Inr (), sofar @ es)"
  by (induction es arbitrary: sofar) (simp_all add: assms)

lemma build_faiss_index_retained:
  "build_faiss_index lib world fs mp vp oi om =
     (case iter_ndjson lib fs mp of
        Inl e \<Rightarrow> (Inl (Reader e), [])
      | Inr movies \<Rightarrow>
          (case iter_ndjson lib fs vp of
             Inl e \<Rightarrow> (Inl (Reader e), [])
           | Inr rows \<Rightarrow>
               (if rows = [] then (Inl (No_vectors_found vp), [])
                else (case infer_dim rows of
                        None \<Rightarrow> (Inl (No_valid_vectors_found vp), [])
                      | Some d \<Rightarrow>
                          (if retained lib d rows = [] then (Inl No_valid_vectors_to_index, [])
                           else perform world []
                                  (planned lib (build_join lib movies Map.empty) d rows
                                     oi om))))))"
  by (simp add: build_faiss_index_def join_loop_retained normalize_def planned_def Let_def
                comp_def
           split: sum.splits option.splits)

lemma build_faiss_index_steps:
  assumes "snd (build_faiss_index lib world fs mp vp oi om) \<noteq> []
           \<or> fst (build_faiss_index lib world fs mp vp oi om) = Inr u"
  shows "\<exists>d k. iter_ndjson lib fs mp = Inr (records_of lib fs mp)
           \<and> iter_ndjson lib fs vp = Inr (records_of lib fs vp)
           \<and> infer_dim (records_of lib fs vp) = Some d
           \<and> retained lib d (records_of lib fs vp) \<noteq> []
           \<and> k \<le> 8
           \<and> snd (build_faiss_index lib world fs mp vp oi om)
               = take k (planned lib (build_join lib (records_of lib fs mp) Map.empty) d
                           (records_of lib fs vp) oi om)
           \<and> (fst (build_faiss_index lib world fs mp vp oi om) = Inr () \<longrightarrow> k = 8)
           \<and> (\<forall>e. fst (build_faiss_index lib world fs mp vp oi om) = Inl e
                 \<longrightarrow> k < 8
                   \<and> e = Effect_raises
                           (planned lib (build_join lib (records_of lib fs mp) Map.empty) d
                              (records_of lib fs vp) oi om ! k))"
proof -
  from assms obtain movies where m: "iter_ndjson lib fs mp = Inr movies"
    by (cases "iter_ndjson lib fs mp") (auto simp: build_faiss_index_retained)
  from assms m obtain rows where r: "iter_ndjson lib fs vp = Inr rows"
    by (cases "iter_ndjson lib fs vp") (auto simp: build_faiss_index_retained)
  from assms m r have ne: "rows \<noteq> []"
    by (auto simp: build_faiss_index_retained)
  from assms m r ne obtain d where d: "infer_dim rows = Some d"
    by (cases "infer_dim rows") (auto simp: build_faiss_index_retained)
  from assms m r ne d have kept: "retained lib d rows \<noteq> []"
    by (auto simp: build_faiss_index_retained split: if_splits)
  let ?plan = "planned lib (build_join lib movies Map.empty) d rows oi om"
  from m r ne d kept
  have run: "build_faiss_index lib world fs mp vp oi om = perform world [] ?plan"
    by (simp add: build_faiss_index_retained)
  have len: "length ?plan = 8"
    by (simp add: planned_def)
  from perform_steps [of ?plan world "[]"] len obtain k where k: "k \<le> 8"
    and s: "snd (perform world [] ?plan) = take k ?plan"
    and ok: "fst (perform world [] ?plan) = Inr () \<longrightarrow> k = 8"
    and bad: "\<forall>e. fst (perform world [] ?plan) = Inl e
                \<longrightarrow> k < 8 \<and> e = Effect_raises (?plan ! k)"
    by auto
  from m r have recs: "records_of lib fs mp = movies" "records_of lib fs vp = rows"
    by (simp_all add: records_of_def)
  show ?thesis
    using m r d kept k s ok bad
    by (intro exI [of _ d] exI [of _ k]) (simp add: recs run)
qed

lemma written_meta_take:
  "written_meta (take k es) = Some m \<Longrightarrow> written_meta es = Some m"
proof (induction es arbitrary: k)
  case Nil
  then show ?case by simp
next
  case (Cons e rest)
  then show ?case
    by (cases k; cases e) auto
qed

lemma written_index_take:
  "written_index (take k es) = Some m \<Longrightarrow> written_index es = Some m"
proof (induction es arbitrary: k)
  case Nil
  then show ?case by simp
next
  case (Cons e rest)
  then show ?case
    by (cases k; cases e) auto
qed

lemma build_faiss_index_meta:
  assumes "written_meta (snd (build_faiss_index lib world fs mp vp oi om)) = Some meta"
  shows "\<exists>d. iter_ndjson lib fs mp = Inr (records_of lib fs mp)
           \<and> iter_ndjson lib fs vp = Inr (records_of lib fs vp)
           \<and> infer_dim (records_of lib fs vp) = Some d
           \<and> retained lib d (records_of lib fs vp) \<noteq> []
           \<and> meta =
               \<lparr> meta_dim = d,
                 meta_count = length (retained lib d (records_of lib fs vp)),
                 meta_skipped = length (records_of lib fs vp)
                                  - length (retained lib d (records_of lib fs vp)),
                 meta_items =
                   map (item_of lib (build_join lib (records_of lib fs mp) Map.empty))
                       (retained lib d (records_of lib fs vp)) \<rparr>"
proof -
  from assms have "snd (build_faiss_index lib world fs mp vp oi om) \<noteq> []"
    by auto
  from build_faiss_index_steps [of lib world fs mp vp oi om, OF disjI1, OF this]
  obtain d k where a: "iter_ndjson lib fs mp = Inr (records_of lib fs mp)"
      "iter_ndjson lib fs vp = Inr (records_of lib fs vp)"
      "infer_dim (records_of lib fs vp) = Some d"
      "retained lib d (records_of lib fs vp) \<noteq> []"
    and s: "snd (build_faiss_index lib world fs mp vp oi om)
              = take k (planned lib (build_join lib (records_of lib fs mp) Map.empty) d
                          (records_of lib fs vp) oi om)"
    by blast
  from assms s written_meta_take
  have "written_meta (planned lib (build_join lib (records_of lib fs mp) Map.empty) d
                        (records_of lib fs vp) oi om) = Some meta"
    by metis
  then have "meta =
               \<lparr> meta_dim = d,
                 meta_count = length (retained lib d (records_of lib fs vp)),
                 meta_skipped = length (records_of lib fs vp)
                                  - length (retained lib d (records_of lib fs vp)),
                 meta_items =
                   map (item_of lib (build_join lib (records_of lib fs mp) Map.empty))
                       (retained lib d (records_of lib fs vp)) \<rparr>"
    by (simp add: planned_def)
  with a show ?thesis
    by blast
qed

lemma build_faiss_index_index:
  assumes "written_index (snd (build_faiss_index lib world fs mp vp oi om)) = Some (d, mat)"
  shows "iter_ndjson lib fs mp = Inr (records_of lib fs mp)
           \<and> iter_ndjson lib fs vp = Inr (records_of lib fs vp)
           \<and> infer_dim (records_of lib fs vp) = Some d
           \<and> retained lib d (records_of lib fs vp) \<noteq> []
           \<and> mat = map (\<lambda>r. normalize_row lib (vec_of lib d r))
                       (retained lib d (records_of lib fs vp))"
proof -
  from assms have "snd (build_faiss_index lib world fs mp vp oi om) \<noteq> []"
    by auto
  from build_faiss_index_steps [of lib world fs mp vp oi om, OF disjI1, OF this]
  obtain d' k where a: "iter_ndjson lib fs mp = Inr (records_of lib fs mp)"
      "iter_ndjson lib fs vp = Inr (records_of lib fs vp)"
      "infer_dim (records_of lib fs vp) = Some d'"
      "retained lib d' (records_of lib fs vp) \<noteq> []"
    and s: "snd (build_faiss_index lib world fs mp vp oi om)
              = take k (planned lib (build_join lib (records_of lib fs mp) Map.empty) d'
                          (records_of lib fs vp) oi om)"
    by blast
  from assms s written_index_take
  have "written_index (planned lib (build_join lib (records_of lib fs mp) Map.empty) d'
                         (records_of lib fs vp) oi om) = Some (d, mat)"
    by metis
  then have "d' = d"
    and "mat = map (\<lambda>r. normalize_row lib (vec_of lib d r))
                   (retained lib d (records_of lib fs vp))"
    by (auto simp: planned_def)
  with a show ?thesis
    by simp
qed

lemma build_faiss_index_returns:
  assumes "build_faiss_index lib world fs mp vp oi om = (Inr u, effs)"
  shows "\<exists>d. iter_ndjson lib fs mp = Inr (records_of lib fs mp)
           \<and> iter_ndjson lib fs vp = Inr (records_of lib fs vp)
           \<and> infer_dim (records_of lib fs vp) = Some d
           \<and> retained lib d (records_of lib fs vp) \<noteq> []
           \<and> effs = planned lib (build_join lib (records_of lib fs mp) Map.empty) d
                       (records_of lib fs vp) oi om"
proof -
  from assms have ok: "fst (build_faiss_index lib world fs mp vp oi om) = Inr ()"
    and effs: "snd (build_faiss_index lib world fs mp vp oi om) = effs"
    by simp_all
  from build_faiss_index_steps [of lib world fs mp vp oi om "()", OF disjI2, OF ok]
  obtain d k where a: "iter_ndjson lib fs mp = Inr (records_of lib fs mp)"
      "iter_ndjson lib fs vp = Inr (records_of lib fs vp)"
      "infer_dim (records_of lib fs vp) = Some d"
      "retained lib d (records_of lib fs vp) \<noteq> []"
    and s: "snd (build_faiss_index lib world fs mp vp oi om)
              = take k (planned lib (build_join lib (records_of lib fs mp) Map.empty) d
                          (records_of lib fs vp) oi om)"
    and k: "fst (build_faiss_index lib world fs mp vp oi om) = Inr () \<longrightarrow> k = 8"
    by blast
  from k ok have "k = 8"
    by simp
  with s effs
  have "effs = planned lib (build_join lib (records_of lib fs mp) Map.empty) d
                 (records_of lib fs vp) oi om"
    by (simp add: planned_def)
  with a show ?thesis
    by blast
qed

section \<open>Every parsed vector record is counted once\<close>

text \<open>
  C10. The join loop, started on empty lists and a zero tally, ends with as many vectors
  as items, and the number of items plus the skipped tally is the number of vector
  records. Whenever a run writes a sidecar, whatever happens afterwards, the reader has
  returned the records of the vectors dataset, the sidecar's \<^verbatim>\<open>count\<close> plus its
  \<^verbatim>\<open>skipped\<close> is their number, and \<^verbatim>\<open>count\<close> is the number of its items. A run that
  returns has written a sidecar.
\<close>

theorem count_plus_skipped:
  "(join_loop lib t d rows ([], [], 0) = (vectors, metas, skipped)
      \<longrightarrow> length metas + skipped = length rows \<and> length vectors = length metas)
   \<and> (snd (build_faiss_index lib world fs mp vp oi om) = effs \<and> written_meta effs = Some meta
      \<longrightarrow> iter_ndjson lib fs vp = Inr (records_of lib fs vp)
        \<and> meta_count meta + meta_skipped meta = length (records_of lib fs vp)
        \<and> meta_count meta = length (meta_items meta))
   \<and> (build_faiss_index lib world fs mp vp oi om = (Inr u, effs)
      \<longrightarrow> (\<exists>meta. written_meta effs = Some meta))"
proof (intro conjI impI)
  assume "join_loop lib t d rows ([], [], 0) = (vectors, metas, skipped)"
  then have "metas = map (item_of lib t) (retained lib d rows)"
    and "vectors = map (vec_of lib d) (retained lib d rows)"
    and "skipped = length rows - length (retained lib d rows)"
    by (simp_all add: join_loop_retained)
  with retained_length_le [of lib d rows]
  show "length metas + skipped = length rows" and "length vectors = length metas"
    by simp_all
next
  assume a: "snd (build_faiss_index lib world fs mp vp oi om) = effs
             \<and> written_meta effs = Some meta"
  then have "written_meta (snd (build_faiss_index lib world fs mp vp oi om)) = Some meta"
    by simp
  from build_faiss_index_meta [OF this]
  obtain d' where rows: "iter_ndjson lib fs vp = Inr (records_of lib fs vp)"
    and meta: "meta =
      \<lparr> meta_dim = d',
        meta_count = length (retained lib d' (records_of lib fs vp)),
        meta_skipped = length (records_of lib fs vp)
                         - length (retained lib d' (records_of lib fs vp)),
        meta_items =
          map (item_of lib (build_join lib (records_of lib fs mp) Map.empty))
              (retained lib d' (records_of lib fs vp)) \<rparr>"
    by blast
  from rows show "iter_ndjson lib fs vp = Inr (records_of lib fs vp)" .
  from retained_length_le [of lib d' "records_of lib fs vp"]
  show "meta_count meta + meta_skipped meta = length (records_of lib fs vp)"
    and "meta_count meta = length (meta_items meta)"
    by (simp_all add: meta)
next
  assume "build_faiss_index lib world fs mp vp oi om = (Inr u, effs)"
  from build_faiss_index_returns [OF this]
  show "\<exists>meta. written_meta effs = Some meta"
    by (auto simp: planned_def)
qed

theorem count_plus_skipped_witness:
  "length (records_of demo_reader demo_fs ''mixed.ndjson'') = 1 + 1
   \<and> join_loop demo_lib Map.empty 2
        [[(''key'', JStr ''a''), (''vector'', JArr [JInt 1, JInt 2])],
         [(''key'', JStr ''b''), (''vector'', JArr [JInt 1, JInt 2, JInt 3])],
         [(''vector'', JArr [JInt 3, JInt 4])]] ([], [], 0)
       = ([Vec [1, 2]],
          [[(''imdbId'', JNull), (''id'', JNull), (''key'', JStr ''a''), (''title'', JNull),
            (''year'', JNull), (''genre'', JNull), (''productionCountry'', JNull),
            (''moodTags'', JArr [])]],
          2)
   \<and> length [[(''imdbId'', JNull :: int json), (''id'', JNull), (''key'', JStr ''a''),
               (''title'', JNull), (''year'', JNull), (''genre'', JNull),
               (''productionCountry'', JNull), (''moodTags'', JArr [])]] + 2 = 3"
proof -
  let ?item = "[(''imdbId'', JNull), (''id'', JNull), (''key'', JStr ''a''),
                (''title'', JNull), (''year'', JNull), (''genre'', JNull),
                (''productionCountry'', JNull), (''moodTags'', JArr [])] :: int pydict"
  let ?meta = "\<lparr> meta_dim = 2, meta_count = 1, meta_skipped = 1, meta_items = [?item] \<rparr>"
  let ?rows = "[[(''key'', JStr ''a''), (''vector'', JArr [JInt 1, JInt 2])],
                [(''key'', JStr ''b''), (''vector'', JArr [JInt 1, JInt 2, JInt 3])],
                [(''vector'', JArr [JInt 3, JInt 4])]] :: int pydict list"
  have meta: "written_meta (snd (demo_run ''movies.ndjson'' ''mixed.ndjson'')) = Some ?meta"
    by code_simp
  have loop: "join_loop demo_lib Map.empty 2 ?rows ([], [], 0) = ([Vec [1, 2]], [?item], 2)"
    by code_simp
  from count_plus_skipped
         [of demo_reader "Map.empty" 2 "[]" "[]" "[]" 0 all_succeed
             demo_fs "''movies.ndjson''" "''mixed.ndjson''" "''faiss.index''" "''meta.json''"
             "snd (demo_run ''movies.ndjson'' ''mixed.ndjson'')" ?meta]
       meta
  have rows: "length (records_of demo_reader demo_fs ''mixed.ndjson'') = 1 + 1"
    by (simp add: demo_run_def)
  from count_plus_skipped [of demo_lib "Map.empty" 2 ?rows "[Vec [1, 2]]" "[?item]" 2] loop
  have "length [?item] + 2 = length ?rows"
    by blast
  with loop rows show ?thesis
    by simp
qed

section \<open>Items and matrix rows are aligned\<close>

text \<open>
  C3. The join loop appends a vector and an item in the same step, so both lists are the
  images of one list of kept records. A run that returns has written the index and the
  sidecar. Whenever a run has written both, whatever happens afterwards, the sidecar's
  \<^verbatim>\<open>count\<close> and the number of its items equal the number of rows written to the index,
  and for every \<open>i\<close> the \<open>i\<close>-th item and the \<open>i\<close>-th row come from the \<open>i\<close>-th kept vector
  record: the item is composed from it, the row is its coerced vector, normalised.
\<close>

theorem items_aligned_with_rows:
  "(build_faiss_index lib world fs mp vp oi om = (Inr u, effs)
      \<longrightarrow> (\<exists>d mat meta. written_index effs = Some (d, mat) \<and> written_meta effs = Some meta))
   \<and> (snd (build_faiss_index lib world fs mp vp oi om) = effs
       \<and> written_index effs = Some (d, mat) \<and> written_meta effs = Some meta
      \<longrightarrow> meta_count meta = length mat
        \<and> length (meta_items meta) = length mat
        \<and> length (retained lib d (records_of lib fs vp)) = length mat
        \<and> (\<forall>i < length mat.
              meta_items meta ! i
                = item_of lib (build_join lib (records_of lib fs mp) Map.empty)
                    (retained lib d (records_of lib fs vp) ! i)
            \<and> mat ! i
                = normalize_row lib (vec_of lib d (retained lib d (records_of lib fs vp) ! i)))
        \<and> join_loop lib (build_join lib (records_of lib fs mp) Map.empty) d
              (records_of lib fs vp) ([], [], 0)
            = (map (vec_of lib d) (retained lib d (records_of lib fs vp)),
               meta_items meta, meta_skipped meta))"
proof (intro conjI impI)
  assume "build_faiss_index lib world fs mp vp oi om = (Inr u, effs)"
  from build_faiss_index_returns [OF this]
  show "\<exists>d mat meta. written_index effs = Some (d, mat) \<and> written_meta effs = Some meta"
    by (auto simp: planned_def)
next
  assume a: "snd (build_faiss_index lib world fs mp vp oi om) = effs
             \<and> written_index effs = Some (d, mat) \<and> written_meta effs = Some meta"
  then have "written_index (snd (build_faiss_index lib world fs mp vp oi om)) = Some (d, mat)"
    and "written_meta (snd (build_faiss_index lib world fs mp vp oi om)) = Some meta"
    by simp_all
  from build_faiss_index_index [OF this(1)] build_faiss_index_meta [OF this(2)]
  have mat: "mat = map (\<lambda>r. normalize_row lib (vec_of lib d r))
                       (retained lib d (records_of lib fs vp))"
    and meta: "meta =
      \<lparr> meta_dim = d,
        meta_count = length (retained lib d (records_of lib fs vp)),
        meta_skipped = length (records_of lib fs vp)
                         - length (retained lib d (records_of lib fs vp)),
        meta_items =
          map (item_of lib (build_join lib (records_of lib fs mp) Map.empty))
              (retained lib d (records_of lib fs vp)) \<rparr>"
    by auto
  show "meta_count meta = length mat"
    and "length (meta_items meta) = length mat"
    and "length (retained lib d (records_of lib fs vp)) = length mat"
    by (simp_all add: mat meta)
  show "\<forall>i < length mat.
              meta_items meta ! i
                = item_of lib (build_join lib (records_of lib fs mp) Map.empty)
                    (retained lib d (records_of lib fs vp) ! i)
            \<and> mat ! i
                = normalize_row lib (vec_of lib d (retained lib d (records_of lib fs vp) ! i))"
    by (simp add: mat meta)
  show "join_loop lib (build_join lib (records_of lib fs mp) Map.empty) d
              (records_of lib fs vp) ([], [], 0)
            = (map (vec_of lib d) (retained lib d (records_of lib fs vp)),
               meta_items meta, meta_skipped meta)"
    by (simp add: meta join_loop_retained)
qed

theorem items_aligned_with_rows_witness:
  "item_of demo_reader
     (build_join demo_reader (records_of demo_reader demo_fs ''movies.ndjson'') Map.empty)
     (retained demo_reader 3 (records_of demo_reader demo_fs ''twice.ndjson'') ! 1)
     = [(''imdbId'', JStr ''tt1''), (''id'', JNull), (''key'', JStr ''tt1''),
        (''title'', JStr ''X''), (''year'', JInt 2000), (''genre'', JNull),
        (''productionCountry'', JNull), (''moodTags'', JArr [])]
   \<and> normalize_row demo_reader
       (vec_of demo_reader 3
          (retained demo_reader 3 (records_of demo_reader demo_fs ''twice.ndjson'') ! 1))
     = Quot [0, 1, 0] (NormOf [0, 1, 0])
   \<and> length (retained demo_reader 3 (records_of demo_reader demo_fs ''twice.ndjson'')) = 2"
proof -
  let ?item = "[(''imdbId'', JStr ''tt1''), (''id'', JNull), (''key'', JStr ''tt1''),
                (''title'', JStr ''X''), (''year'', JInt 2000), (''genre'', JNull),
                (''productionCountry'', JNull), (''moodTags'', JArr [])] :: int pydict"
  let ?meta = "\<lparr> meta_dim = 3, meta_count = 2, meta_skipped = 0,
                  meta_items = [?item, ?item] \<rparr>"
  let ?mat = "[Quot [1, 0, 0] (NormOf [1, 0, 0]), Quot [0, 1, 0] (NormOf [0, 1, 0])]"
  have idx: "written_index (snd (demo_run ''movies.ndjson'' ''twice.ndjson''))
               = Some (3, ?mat)"
    by code_simp
  have meta: "written_meta (snd (demo_run ''movies.ndjson'' ''twice.ndjson'')) = Some ?meta"
    by code_simp
  note aligned = items_aligned_with_rows
      [of demo_reader all_succeed demo_fs "''movies.ndjson''" "''twice.ndjson''"
          "''faiss.index''" "''meta.json''" "()"
          "snd (demo_run ''movies.ndjson'' ''twice.ndjson'')" 3 ?mat ?meta,
       THEN conjunct2, rule_format]
  from idx meta
  have both: "snd (build_faiss_index demo_reader all_succeed demo_fs ''movies.ndjson''
                     ''twice.ndjson'' ''faiss.index'' ''meta.json'')
                = snd (demo_run ''movies.ndjson'' ''twice.ndjson'')
              \<and> written_index (snd (demo_run ''movies.ndjson'' ''twice.ndjson''))
                  = Some (3, ?mat)
              \<and> written_meta (snd (demo_run ''movies.ndjson'' ''twice.ndjson''))
                  = Some ?meta"
    by (simp add: demo_run_def)
  from aligned [OF both]
  have len: "length (retained demo_reader 3 (records_of demo_reader demo_fs ''twice.ndjson''))
               = length ?mat"
    and each: "\<forall>i < length ?mat.
              meta_items ?meta ! i
                = item_of demo_reader
                    (build_join demo_reader (records_of demo_reader demo_fs ''movies.ndjson'')
                       Map.empty)
                    (retained demo_reader 3
                       (records_of demo_reader demo_fs ''twice.ndjson'') ! i)
            \<and> ?mat ! i
                = normalize_row demo_reader
                    (vec_of demo_reader 3
                       (retained demo_reader 3
                          (records_of demo_reader demo_fs ''twice.ndjson'') ! i))"
    by blast+
  have lt: "1 < length ?mat"
    by simp
  from each [rule_format, OF lt] len show ?thesis
    by simp
qed

section \<open>Which errors come before any output\<close>

lemma build_faiss_index_error:
  assumes "fst (build_faiss_index lib world fs mp vp oi om) = Inl e"
  shows "(\<exists>x. e = Effect_raises x) \<or> snd (build_faiss_index lib world fs mp vp oi om) = []"
proof (cases "snd (build_faiss_index lib world fs mp vp oi om) = []")
  case True
  then show ?thesis by simp
next
  case False
  from build_faiss_index_steps [of lib world fs mp vp oi om, OF disjI1, OF False] assms
  show ?thesis by blast
qed

text \<open>
  C5 (as the code has it). The run ends in the missing-input error exactly when both
  datasets are read without an exception and the vectors dataset gives no record. A
  movies path with no file gives no record, and a movies dataset without records is no
  error: with a vectors dataset that has a kept record, and an outside on which every
  step succeeds, the run returns. The three errors the specification names, and every
  exception of the reader, are raised before the first step on the outside: nothing has
  been written then. Every other failure is a step on the outside that raises; the steps
  before it have been carried out, so the index can be there without the sidecar.
\<close>

theorem fatal_errors_before_outputs:
  "((case fst (build_faiss_index lib world fs mp vp oi om) of
       Inl e \<Rightarrow> classify e = Some MissingInputError
     | Inr u \<Rightarrow> False)
      = (iter_ndjson lib fs mp = Inr (records_of lib fs mp) \<and> iter_ndjson lib fs vp = Inr []))
   \<and> (fs mp = None \<longrightarrow> iter_ndjson lib fs mp = Inr [])
   \<and> (iter_ndjson lib fs mp = Inr [] \<and> iter_ndjson lib fs vp = Inr rows
        \<and> infer_dim rows = Some d \<and> retained lib d rows \<noteq> [] \<and> (\<forall>s x. world s x)
        \<longrightarrow> build_faiss_index lib world fs mp vp oi om
              = (Inr (), planned lib Map.empty d rows oi om))
   \<and> (fst (build_faiss_index lib world fs mp vp oi om) = Inl e
        \<and> (classify e \<noteq> None \<or> e = Reader r)
        \<longrightarrow> snd (build_faiss_index lib world fs mp vp oi om) = []
          \<and> written_index (snd (build_faiss_index lib world fs mp vp oi om)) = None
          \<and> written_meta (snd (build_faiss_index lib world fs mp vp oi om)) = None)
   \<and> (fst (build_faiss_index lib world fs mp vp oi om) = Inl e
        \<and> snd (build_faiss_index lib world fs mp vp oi om) \<noteq> []
        \<longrightarrow> (\<exists>d' k. infer_dim (records_of lib fs vp) = Some d' \<and> k < 8
               \<and> e = Effect_raises
                       (planned lib (build_join lib (records_of lib fs mp) Map.empty) d'
                          (records_of lib fs vp) oi om ! k)
               \<and> snd (build_faiss_index lib world fs mp vp oi om)
                   = take k (planned lib (build_join lib (records_of lib fs mp) Map.empty) d'
                               (records_of lib fs vp) oi om)))"
proof (intro conjI impI)
  show "(case fst (build_faiss_index lib world fs mp vp oi om) of
           Inl e \<Rightarrow> classify e = Some MissingInputError
         | Inr u \<Rightarrow> False)
          = (iter_ndjson lib fs mp = Inr (records_of lib fs mp)
             \<and> iter_ndjson lib fs vp = Inr [])"
  proof (cases "iter_ndjson lib fs mp")
    case (Inl x)
    then show ?thesis
      by (simp add: build_faiss_index_retained)
  next
    case m: (Inr movies)
    show ?thesis
    proof (cases "iter_ndjson lib fs vp")
      case (Inl x)
      with m show ?thesis
        by (simp add: build_faiss_index_retained records_of_def)
    next
      case r: (Inr rows)
      show ?thesis
      proof (cases "rows = []")
        case True
        with m r show ?thesis
          by (simp add: build_faiss_index_retained records_of_def)
      next
        case False
        have "fst (build_faiss_index lib world fs mp vp oi om) \<noteq> Inl (No_vectors_found p)"
          for p
        proof
          assume a: "fst (build_faiss_index lib world fs mp vp oi om) = Inl (No_vectors_found p)"
          from build_faiss_index_error [OF a]
          have "snd (build_faiss_index lib world fs mp vp oi om) = []"
            by simp
          with a m r False show False
            by (auto simp: build_faiss_index_retained planned_def
                     split: option.splits if_splits)
        qed
        then have "\<not> (case fst (build_faiss_index lib world fs mp vp oi om) of
                       Inl e \<Rightarrow> classify e = Some MissingInputError
                     | Inr u \<Rightarrow> False)"
          by (auto split: sum.splits elim: classify.elims)
        with r False show ?thesis
          by simp
      qed
    qed
  qed
next
  assume "fs mp = None"
  then show "iter_ndjson lib fs mp = Inr []"
    by (simp add: iter_ndjson_def)
next
  assume "iter_ndjson lib fs mp = Inr [] \<and> iter_ndjson lib fs vp = Inr rows
        \<and> infer_dim rows = Some d \<and> retained lib d rows \<noteq> [] \<and> (\<forall>s x. world s x)"
  then show "build_faiss_index lib world fs mp vp oi om
              = (Inr (), planned lib Map.empty d rows oi om)"
    by (auto simp: build_faiss_index_retained perform_all_succeed retained_def)
next
  assume a: "fst (build_faiss_index lib world fs mp vp oi om) = Inl e
        \<and> (classify e \<noteq> None \<or> e = Reader r)"
  then have "\<not> (\<exists>x. e = Effect_raises x)"
    by auto
  with build_faiss_index_error [of lib world fs mp vp oi om e] a
  show "snd (build_faiss_index lib world fs mp vp oi om) = []"
    by blast
  then show "written_index (snd (build_faiss_index lib world fs mp vp oi om)) = None"
    and "written_meta (snd (build_faiss_index lib world fs mp vp oi om)) = None"
    by simp_all
next
  assume a: "fst (build_faiss_index lib world fs mp vp oi om) = Inl e
        \<and> snd (build_faiss_index lib world fs mp vp oi om) \<noteq> []"
  from build_faiss_index_steps [of lib world fs mp vp oi om, OF disjI1] a
  show "\<exists>d' k. infer_dim (records_of lib fs vp) = Some d' \<and> k < 8
               \<and> e = Effect_raises
                       (planned lib (build_join lib (records_of lib fs mp) Map.empty) d'
                          (records_of lib fs vp) oi om ! k)
               \<and> snd (build_faiss_index lib world fs mp vp oi om)
                   = take k (planned lib (build_join lib (records_of lib fs mp) Map.empty) d'
                               (records_of lib fs vp) oi om)"
    by blast
qed

theorem fatal_errors_before_outputs_witness:
  "iter_ndjson demo_reader demo_fs ''absent.ndjson'' = Inr []
   \<and> fst (demo_run ''absent.ndjson'' ''vectors.ndjson'') = Inr ()
   \<and> fst (demo_run ''movies.ndjson'' ''comments.ndjson'')
       = Inl (No_vectors_found ''comments.ndjson'')
   \<and> snd (demo_run ''movies.ndjson'' ''comments.ndjson'') = []
   \<and> fst (demo_run ''movies.ndjson'' ''no_vector.ndjson'')
       = Inl (No_valid_vectors_found ''no_vector.ndjson'')
   \<and> snd (demo_run ''movies.ndjson'' ''no_vector.ndjson'') = []
   \<and> fst (demo_run ''movies.ndjson'' ''cut_short.ndjson'')
       = Inl (Reader (Read_raises ''cut_short.ndjson''))
   \<and> snd (demo_run ''movies.ndjson'' ''cut_short.ndjson'') = []"
proof -
  let ?row = "[(''key'', JStr ''tt1''), (''vector'', JArr [JInt 1, JInt 0, JInt 0]),
               (''__line__'', JInt 1)] :: int pydict"
  have absent: "demo_fs ''absent.ndjson'' = None"
    by code_simp
  have rows: "iter_ndjson demo_reader demo_fs ''vectors.ndjson'' = Inr [?row]"
    by code_simp
  have dim: "infer_dim [?row] = Some 3"
    by code_simp
  have kept: "retained demo_reader 3 [?row] \<noteq> []"
    by code_simp
  have none: "fst (demo_run ''movies.ndjson'' ''comments.ndjson'')
                = Inl (No_vectors_found ''comments.ndjson'')"
    by code_simp
  have bad: "fst (demo_run ''movies.ndjson'' ''no_vector.ndjson'')
               = Inl (No_valid_vectors_found ''no_vector.ndjson'')"
    by code_simp
  have cut: "fst (demo_run ''movies.ndjson'' ''cut_short.ndjson'')
               = Inl (Reader (Read_raises ''cut_short.ndjson''))"
    by code_simp
  note absent_movies = fatal_errors_before_outputs
         [of demo_reader all_succeed demo_fs "''absent.ndjson''" "''vectors.ndjson''"
             "''faiss.index''" "''meta.json''" "[?row]" 3]
  from absent_movies absent
  have a: "iter_ndjson demo_reader demo_fs ''absent.ndjson'' = Inr []"
    by blast
  have every: "\<forall>s x. all_succeed s x"
    by (simp add: all_succeed_def)
  from absent_movies a rows dim kept every
  have "build_faiss_index demo_reader all_succeed demo_fs ''absent.ndjson'' ''vectors.ndjson''
          ''faiss.index'' ''meta.json''
        = (Inr (), planned demo_reader Map.empty 3 [?row] ''faiss.index'' ''meta.json'')"
    by blast
  then have b: "fst (demo_run ''absent.ndjson'' ''vectors.ndjson'') = Inr ()"
    by (simp add: demo_run_def)
  from fatal_errors_before_outputs
         [of demo_reader all_succeed demo_fs "''movies.ndjson''" "''comments.ndjson''"
             "''faiss.index''" "''meta.json''" _ _ "No_vectors_found ''comments.ndjson''"]
       none [unfolded demo_run_def]
  have "snd (build_faiss_index demo_reader all_succeed demo_fs ''movies.ndjson''
               ''comments.ndjson'' ''faiss.index'' ''meta.json'') = []"
    by simp
  then have c: "snd (demo_run ''movies.ndjson'' ''comments.ndjson'') = []"
    by (simp add: demo_run_def)
  from fatal_errors_before_outputs
         [of demo_reader all_succeed demo_fs "''movies.ndjson''" "''no_vector.ndjson''"
             "''faiss.index''" "''meta.json''" _ _
             "No_valid_vectors_found ''no_vector.ndjson''"]
       bad [unfolded demo_run_def]
  have "snd (build_faiss_index demo_reader all_succeed demo_fs ''movies.ndjson''
               ''no_vector.ndjson'' ''faiss.index'' ''meta.json'') = []"
    by simp
  then have d: "snd (demo_run ''movies.ndjson'' ''no_vector.ndjson'') = []"
    by (simp add: demo_run_def)
  from fatal_errors_before_outputs
         [of demo_reader all_succeed demo_fs "''movies.ndjson''" "''cut_short.ndjson''"
             "''faiss.index''" "''meta.json''" _ _
             "Reader (Read_raises ''cut_short.ndjson'')" "Read_raises ''cut_short.ndjson''"]
       cut [unfolded demo_run_def]
  have "snd (build_faiss_index demo_reader all_succeed demo_fs ''movies.ndjson''
               ''cut_short.ndjson'' ''faiss.index'' ''meta.json'') = []"
    by simp
  then have e: "snd (demo_run ''movies.ndjson'' ''cut_short.ndjson'') = []"
    by (simp add: demo_run_def)
  from a b c d e none bad cut show ?thesis
    by simp
qed

text \<open>
  C5 (as stated) fails twice. When writing the sidecar raises, the run fails after the
  index has been written: there is partial output. And when the movies path is a
  directory, the run ends in the reader's exception although the vectors dataset gives no
  record: the missing-input error is not raised.
\<close>

theorem no_partial_output_counterexample:
  "build_faiss_index demo_reader sidecar_fails demo_fs ''movies.ndjson'' ''vectors.ndjson''
     ''faiss.index'' ''meta.json''
     = (Inl (Effect_raises
               (Write_text ''meta.json''
                  \<lparr> meta_dim = 3, meta_count = 1, meta_skipped = 0,
                    meta_items =
                      [[(''imdbId'', JStr ''tt1''), (''id'', JNull), (''key'', JStr ''tt1''),
                        (''title'', JStr ''X''), (''year'', JInt 2000), (''genre'', JNull),
                        (''productionCountry'', JNull), (''moodTags'', JArr [])]] \<rparr>)),
        [Import_faiss, Mkdir_parent ''faiss.index'',
         Write_index ''faiss.index'' 3 [Quot [1, 0, 0] (NormOf [1, 0, 0])],
         Mkdir_parent ''meta.json''])
   \<and> iter_ndjson demo_reader demo_fs ''comments.ndjson'' = Inr []
   \<and> demo_run ''folder.ndjson'' ''comments.ndjson''
       = (Inl (Reader (Open_raises ''folder.ndjson'')), [])"
  by code_simp

section \<open>The inferred dimension\<close>





section \<open>Records sharing a key\<close>




lemma item_of_key: "py_get (item_of lib t r) ''key'' = JStr (vector_key lib r)"
  by (simp add: item_of_def compose_meta_def py_get_def)




section \<open>The fields of an item\<close>

lemma item_of_field:
  assumes "t (vector_key lib r) = Some m"
    and "f \<in> {''title'', ''year'', ''genre'', ''productionCountry'', ''imdbId'', ''id''}"
  shows "py_get (item_of lib t r) f = py_or lib (py_get m f) (py_get r f)"
proof -
  from assms(1) have m: "lookup_movie t (vector_key lib r) = m"
    by (simp add: lookup_movie_def)
  from assms(2) show ?thesis
    by (auto simp: item_of_def m compose_meta_def py_get_def)
qed

lemma item_of_moodTags:
  assumes "t (vector_key lib r) = Some m"
  shows "py_get (item_of lib t r) ''moodTags''
           = py_or lib (py_or lib (py_get m ''moodTags'') (py_get r ''moodTags'')) (JArr [])"
proof -
  from assms have m: "lookup_movie t (vector_key lib r) = m"
    by (simp add: lookup_movie_def)
  show ?thesis
    by (simp add: item_of_def m compose_meta_def py_get_def)
qed

text \<open>
  C2 (as the code has it). Take a run that has written a sidecar, its \<open>i\<close>-th item, the
  kept vector record \<open>r\<close> it was made from, and the movie record \<open>m\<close> the join table has
  for the key of \<open>r\<close>. Each of \<^verbatim>\<open>title\<close>, \<^verbatim>\<open>year\<close>, \<^verbatim>\<open>genre\<close>, \<^verbatim>\<open>productionCountry\<close>,
  \<^verbatim>\<open>imdbId\<close> and \<^verbatim>\<open>id\<close> of the item is the value \<open>m\<close> has for it when that value is true
  in Python's sense, and the value \<open>r\<close> has for it (\<^verbatim>\<open>None\<close> if it has none) otherwise.
  \<^verbatim>\<open>moodTags\<close> is chosen the same way, with the empty list when neither value is true.
  The item's \<^verbatim>\<open>key\<close> is the key of \<open>r\<close>.
\<close>

theorem item_fields_prefer_truthy_movie_value:
  assumes "snd (build_faiss_index lib world fs mp vp oi om) = effs"
    and "written_meta effs = Some meta"
    and "i < length (meta_items meta)"
    and "build_join lib (records_of lib fs mp) Map.empty
           (vector_key lib (retained lib (meta_dim meta) (records_of lib fs vp) ! i)) = Some m"
  shows "(\<forall>f \<in> {''title'', ''year'', ''genre'', ''productionCountry'', ''imdbId'', ''id''}.
            py_get (meta_items meta ! i) f
              = (if truthy lib (py_get m f) then py_get m f
                 else py_get (retained lib (meta_dim meta) (records_of lib fs vp) ! i) f))
         \<and> py_get (meta_items meta ! i) ''moodTags''
             = (if truthy lib (py_get m ''moodTags'') then py_get m ''moodTags''
                else if truthy lib
                          (py_get (retained lib (meta_dim meta) (records_of lib fs vp) ! i)
                             ''moodTags'')
                then py_get (retained lib (meta_dim meta) (records_of lib fs vp) ! i) ''moodTags''
                else JArr [])
         \<and> py_get (meta_items meta ! i) ''key''
             = JStr (vector_key lib (retained lib (meta_dim meta) (records_of lib fs vp) ! i))"
proof -
  from assms(1,2)
  have "written_meta (snd (build_faiss_index lib world fs mp vp oi om)) = Some meta"
    by simp
  from build_faiss_index_meta [OF this]
  obtain d where dim: "meta_dim meta = d"
    and items: "meta_items meta =
          map (item_of lib (build_join lib (records_of lib fs mp) Map.empty))
              (retained lib d (records_of lib fs vp))"
    by auto
  from assms(3) items have i: "i < length (retained lib d (records_of lib fs vp))"
    by simp
  from i items have item: "meta_items meta ! i =
      item_of lib (build_join lib (records_of lib fs mp) Map.empty)
        (retained lib d (records_of lib fs vp) ! i)"
    by simp
  from assms(4) dim have m: "build_join lib (records_of lib fs mp) Map.empty
           (vector_key lib (retained lib d (records_of lib fs vp) ! i)) = Some m"
    by simp
  show ?thesis
    unfolding dim item
    using item_of_field
            [where t = "build_join lib (records_of lib fs mp) Map.empty" and lib = lib
               and r = "retained lib d (records_of lib fs vp) ! i" and m = m, OF m]
          item_of_moodTags
            [where t = "build_join lib (records_of lib fs mp) Map.empty" and lib = lib
               and r = "retained lib d (records_of lib fs vp) ! i" and m = m, OF m]
    by (simp add: item_of_key py_or_def)
qed

theorem item_fields_prefer_truthy_movie_value_witness:
  "py_get [(''imdbId'', JStr ''tt1''), (''id'', JNull), (''key'', JStr ''tt1''),
           (''title'', JStr ''X''), (''year'', JNull), (''genre'', JStr ''Drama''),
           (''productionCountry'', JNull), (''moodTags'', JArr [])] ''title''
     = py_get ([(''imdbId'', JStr ''tt1''), (''title'', JStr ''X''), (''genre'', JStr ''''),
                (''__line__'', JInt 1)] :: int pydict) ''title''
   \<and> py_get [(''imdbId'', JStr ''tt1''), (''id'', JNull), (''key'', JStr ''tt1''),
             (''title'', JStr ''X''), (''year'', JNull), (''genre'', JStr ''Drama''),
             (''productionCountry'', JNull), (''moodTags'', JArr [])] ''genre''
     = py_get (retained demo_reader 3
                 (records_of demo_reader demo_fs ''with_genre.ndjson'') ! 0) ''genre''"
proof -
  let ?item = "[(''imdbId'', JStr ''tt1''), (''id'', JNull), (''key'', JStr ''tt1''),
                (''title'', JStr ''X''), (''year'', JNull), (''genre'', JStr ''Drama''),
                (''productionCountry'', JNull), (''moodTags'', JArr [])] :: int pydict"
  let ?meta = "\<lparr> meta_dim = 3, meta_count = 1, meta_skipped = 0, meta_items = [?item] \<rparr>"
  let ?movie = "[(''imdbId'', JStr ''tt1''), (''title'', JStr ''X''),
                 (''genre'', JStr ''''), (''__line__'', JInt 1)] :: int pydict"
  let ?r = "retained demo_reader 3 (records_of demo_reader demo_fs ''with_genre.ndjson'') ! 0"
  have meta: "written_meta (snd (demo_run ''blank_genre.ndjson'' ''with_genre.ndjson''))
                = Some ?meta"
    by code_simp
  have run: "snd (build_faiss_index demo_reader all_succeed demo_fs ''blank_genre.ndjson''
                    ''with_genre.ndjson'' ''faiss.index'' ''meta.json'')
               = snd (demo_run ''blank_genre.ndjson'' ''with_genre.ndjson'')"
    by (simp add: demo_run_def)
  have len: "0 < length (meta_items ?meta)"
    by simp
  have "build_join demo_reader
          (records_of demo_reader demo_fs ''blank_genre.ndjson'') Map.empty
          (vector_key demo_reader ?r) = Some ?movie"
    by code_simp
  then have movie: "build_join demo_reader
          (records_of demo_reader demo_fs ''blank_genre.ndjson'') Map.empty
          (vector_key demo_reader
             (retained demo_reader (meta_dim ?meta)
                (records_of demo_reader demo_fs ''with_genre.ndjson'') ! 0)) = Some ?movie"
    by simp
  have t: "truthy demo_reader (py_get ?movie ''title'')"
    by code_simp
  have g: "\<not> truthy demo_reader (py_get ?movie ''genre'')"
    by code_simp
  note fields = item_fields_prefer_truthy_movie_value [OF run meta len movie, THEN conjunct1]
  have "py_get ?item ''title'' = py_get ?movie ''title''"
    using fields [rule_format, of "''title''"] t by simp
  moreover have "py_get ?item ''genre'' = py_get ?r ''genre''"
    using fields [rule_format, of "''genre''"] g by simp
  ultimately show ?thesis
    by (rule conjI)
qed

text \<open>
  C2 (as stated) fails: the movie record of \<^verbatim>\<open>blank_genre.ndjson\<close> has the field \<^verbatim>\<open>genre\<close>,
  with the empty string as its value; the vector record of \<^verbatim>\<open>with_genre.ndjson\<close> has the
  same key and the genre "Drama"; the item written has the genre "Drama", the vector
  record's value.
\<close>

theorem movie_field_present_wins_counterexample:
  "fst (demo_run ''blank_genre.ndjson'' ''with_genre.ndjson'') = Inr ()
   \<and> map (vector_key demo_reader)
       (retained demo_reader 3 (records_of demo_reader demo_fs ''with_genre.ndjson''))
     = [''tt1'']
   \<and> map_option (\<lambda>m. map_of m ''genre'')
       (build_join demo_reader (records_of demo_reader demo_fs ''blank_genre.ndjson'')
          Map.empty ''tt1'')
     = Some (Some (JStr ''''))
   \<and> map_option (\<lambda>s. map (\<lambda>item. py_get item ''genre'') (meta_items s))
       (written_meta (snd (demo_run ''blank_genre.ndjson'' ''with_genre.ndjson'')))
     = Some [JStr ''Drama'']"
  by code_simp


end
